theory Spec2Isabelle
  imports Main
begin

section \<open>Python values exchanged by the server\<close>

text \<open>
  The server (\<^verbatim>\<open>src/server.py\<close>) handles decoded JSON documents: the request body
  \<^verbatim>\<open>request.json\<close>, the decoded inference response, and the envelopes it passes to
  \<^verbatim>\<open>jsonify\<close>. A decoded document is \<^verbatim>\<open>None\<close>, a \<^verbatim>\<open>bool\<close>, an \<^verbatim>\<open>int\<close>, a \<^verbatim>\<open>str\<close>,
  a \<^verbatim>\<open>list\<close> or a \<^verbatim>\<open>dict\<close> with string keys. Floating-point numbers are left out of
  the model. A string is a list of code points below 256; a dict is an association
  list in insertion order, read with \<open>map_of\<close>.
\<close>

datatype json =
    JNull
  | JBool bool
  | JInt int
  | JStr string
  | JArr "json list"
  | JObj "(string \<times> json) list"

text \<open>
  Exceptions carry the text that \<^verbatim>\<open>str(e)\<close> yields. \<open>Exception\<close> stands for
  whatever an external library raises.
\<close>

datatype exn =
    AttributeError string
  | IndexError string
  | TypeError string
  | KeyError string
  | Exception string

fun str_exn :: "exn \<Rightarrow> string" where
  "str_exn (AttributeError m) = m"
| "str_exn (IndexError m) = m"
| "str_exn (TypeError m) = m"
| "str_exn (KeyError m) = m"
| "str_exn (Exception m) = m"

definition squote :: char where "squote = CHR 0x27"
definition dquote :: char where "dquote = CHR 0x22"
definition bslash :: char where "bslash = CHR 0x5C"
definition newline :: char where "newline = CHR 0x0A"

fun type_name :: "json \<Rightarrow> string" where
  "type_name JNull = ''NoneType''"
| "type_name (JBool b) = ''bool''"
| "type_name (JInt i) = ''int''"
| "type_name (JStr s) = ''str''"
| "type_name (JArr xs) = ''list''"
| "type_name (JObj kvs) = ''dict''"

text \<open>\<^verbatim>\<open>d.get(k, default)\<close> on a dict.\<close>

definition dict_get :: "(string \<times> json) list \<Rightarrow> string \<Rightarrow> json \<Rightarrow> json" where
  "dict_get kvs k d = (case map_of kvs k of None \<Rightarrow> d | Some v \<Rightarrow> v)"

text \<open>
  \<^verbatim>\<open>v.get(k, default)\<close> on any decoded value: only a dict has the method, every
  other value raises \<^verbatim>\<open>AttributeError\<close>.
\<close>

fun py_get :: "json \<Rightarrow> string \<Rightarrow> json \<Rightarrow> exn + json" where
  "py_get (JObj kvs) k d = Inr (dict_get kvs k d)"
| "py_get v k d =
     Inl (AttributeError ([squote] @ type_name v @ [squote] @ '' object has no attribute ''
            @ [squote] @ ''get'' @ [squote]))"

text \<open>
  \<^verbatim>\<open>v[0]\<close> on any decoded value. A list or a string gives its first element or
  raises \<^verbatim>\<open>IndexError\<close> when empty; a dict has only string keys, so the key \<^verbatim>\<open>0\<close>
  is missing; the other values are not subscriptable.
\<close>

fun py_index0 :: "json \<Rightarrow> exn + json" where
  "py_index0 (JArr []) = Inl (IndexError ''list index out of range'')"
| "py_index0 (JArr (x # xs)) = Inr x"
| "py_index0 (JStr []) = Inl (IndexError ''string index out of range'')"
| "py_index0 (JStr (c # cs)) = Inr (JStr [c])"
| "py_index0 (JObj kvs) = Inl (KeyError ''0'')"
| "py_index0 v = Inl (TypeError ([squote] @ type_name v @ [squote] @ '' object is not subscriptable''))"

subsection \<open>Rendering numbers and strings\<close>

definition digit_char :: "nat \<Rightarrow> char" where
  "digit_char n = char_of (48 + n)"

fun str_nat :: "nat \<Rightarrow> string" where
  "str_nat n = (if n < 10 then [digit_char n] else str_nat (n div 10) @ [digit_char (n mod 10)])"

declare str_nat.simps [simp del]

definition str_int :: "int \<Rightarrow> string" where
  "str_int i = (if i < 0 then CHR ''-'' # str_nat (nat (- i)) else str_nat (nat i))"

definition hex_digit :: "nat \<Rightarrow> char" where
  "hex_digit n = (if n < 10 then char_of (48 + n) else char_of (87 + n))"

text \<open>\<^verbatim>\<open>sep.join(parts)\<close>.\<close>

fun join :: "string \<Rightarrow> string list \<Rightarrow> string" where
  "join sep [] = []"
| "join sep [x] = x"
| "join sep (x # y # ys) = x @ sep @ join sep (y # ys)"

subsection \<open>\<^verbatim>\<open>json.dumps\<close>\<close>

text \<open>
  The standard encoder with its defaults (\<^verbatim>\<open>ensure_ascii=True\<close>, separators
  \<^verbatim>\<open>", "\<close> and \<^verbatim>\<open>": "\<close>, keys in insertion order). Inside a string literal the
  quote, the backslash and the five short escapes are written with a backslash, the
  characters from the space to the tilde stand for themselves, and every other code
  point \<open>n\<close> is written \<^verbatim>\<open>\uXXXX\<close> with four lower-case hexadecimal digits.
\<close>

definition escape_char :: "char \<Rightarrow> string" where
  "escape_char c =
     (if c = dquote then [bslash, dquote]
      else if c = bslash then [bslash, bslash]
      else if c = newline then [bslash, CHR ''n'']
      else if c = CHR 0x0D then [bslash, CHR ''r'']
      else if c = CHR 0x09 then [bslash, CHR ''t'']
      else if c = CHR 0x08 then [bslash, CHR ''b'']
      else if c = CHR 0x0C then [bslash, CHR ''f'']
      else if 0x20 \<le> (of_char c :: nat) \<and> (of_char c :: nat) \<le> 0x7E then [c]
      else [bslash, CHR ''u'',
            hex_digit (of_char c div 4096 mod 16), hex_digit (of_char c div 256 mod 16),
            hex_digit (of_char c div 16 mod 16), hex_digit (of_char c mod 16)])"

definition encode_basestring_ascii :: "string \<Rightarrow> string" where
  "encode_basestring_ascii s = dquote # concat (map escape_char s) @ [dquote]"

fun dumps :: "json \<Rightarrow> string" where
  "dumps JNull = ''null''"
| "dumps (JBool b) = (if b then ''true'' else ''false'')"
| "dumps (JInt i) = str_int i"
| "dumps (JStr s) = encode_basestring_ascii s"
| "dumps (JArr xs) = ''['' @ join '', '' (map dumps xs) @ '']''"
| "dumps (JObj kvs) =
     ''{'' @ join '', '' (map (\<lambda>(k, v). encode_basestring_ascii k @ '': '' @ dumps v) kvs) @ ''}''"

subsection \<open>\<^verbatim>\<open>str\<close> and \<^verbatim>\<open>repr\<close>, as used by f-strings\<close>

text \<open>
  An f-string renders a value with \<^verbatim>\<open>str\<close>: a string stands for itself, every other
  value is rendered as by \<^verbatim>\<open>repr\<close>. The \<^verbatim>\<open>repr\<close> of a string is quoted with single
  quotes, or with double quotes when the string holds a single quote and no double
  quote; the quote and the backslash are escaped, tab, newline and carriage return
  have their short escapes, and a code point that is not printable is written
  \<^verbatim>\<open>\xXX\<close>. Below 256 the printable code points are 0x20 to 0x7E and 0xA1 to 0xFF
  without 0xAD.
\<close>

definition printable :: "char \<Rightarrow> bool" where
  "printable c =
     ((0x20 \<le> (of_char c :: nat) \<and> (of_char c :: nat) \<le> 0x7E)
      \<or> (0xA1 \<le> (of_char c :: nat) \<and> (of_char c :: nat) \<noteq> 0xAD))"

definition repr_char :: "char \<Rightarrow> char \<Rightarrow> string" where
  "repr_char q c =
     (if c = q \<or> c = bslash then [bslash, c]
      else if c = CHR 0x09 then [bslash, CHR ''t'']
      else if c = newline then [bslash, CHR ''n'']
      else if c = CHR 0x0D then [bslash, CHR ''r'']
      else if printable c then [c]
      else [bslash, CHR ''x'', hex_digit (of_char c div 16 mod 16), hex_digit (of_char c mod 16)])"

definition repr_str :: "string \<Rightarrow> string" where
  "repr_str s =
     (let q = (if squote \<in> set s \<and> dquote \<notin> set s then dquote else squote)
      in q # concat (map (repr_char q) s) @ [q])"

fun py_repr :: "json \<Rightarrow> string" where
  "py_repr JNull = ''None''"
| "py_repr (JBool b) = (if b then ''True'' else ''False'')"
| "py_repr (JInt i) = str_int i"
| "py_repr (JStr s) = repr_str s"
| "py_repr (JArr xs) = ''['' @ join '', '' (map py_repr xs) @ '']''"
| "py_repr (JObj kvs) =
     ''{'' @ join '', '' (map (\<lambda>(k, v). repr_str k @ '': '' @ py_repr v) kvs) @ ''}''"

definition py_str :: "json \<Rightarrow> string" where
  "py_str v = (case v of JStr s \<Rightarrow> s | _ \<Rightarrow> py_repr v)"

section \<open>The server\<close>

subsection \<open>External collaborators and process state\<close>

text \<open>
  The two client libraries are outside the repository. Their behaviour is a
  parameter of the model: \<open>snowflake_connect\<close> is the outcome of
  \<^verbatim>\<open>snowflake.connector.connect(...)\<close> (with the import before it), \<open>hive_rows\<close> the
  outcome of \<^verbatim>\<open>conn.cursor()\<close>, \<^verbatim>\<open>cursor.execute(query)\<close> and \<^verbatim>\<open>cursor.fetchall()\<close>
  on a connection, each row given by the \<^verbatim>\<open>str\<close> rendering of its three columns,
  \<open>boto3_client\<close> the outcome of \<^verbatim>\<open>boto3.client('bedrock-runtime', region_name=...)\<close>,
  and \<open>invoke_model\<close> the outcome of \<^verbatim>\<open>client.invoke_model(modelId=..., body=...,
  contentType=...)\<close> followed by \<^verbatim>\<open>json.loads(response['body'].read())\<close>: the decoded
  document, or the exception raised on the way. \<open>AWS_REGION\<close> and \<open>BEDROCK_MODEL\<close>
  are the two settings read from the process environment that the modelled
  functions use. Connection objects and clients are handles; both are truthy.
\<close>

type_synonym handle = nat
type_synonym row = "string \<times> string \<times> string"

record env =
  AWS_REGION :: string
  BEDROCK_MODEL :: string
  snowflake_connect :: "exn + handle"
  hive_rows :: "handle \<Rightarrow> string \<Rightarrow> exn + row list"
  boto3_client :: "string \<Rightarrow> exn + handle"
  invoke_model :: "handle \<Rightarrow> string \<Rightarrow> string \<Rightarrow> string \<Rightarrow> exn + json"

text \<open>
  The process state is the two module-level slots \<^verbatim>\<open>_snowflake_conn\<close> and
  \<^verbatim>\<open>_bedrock_client\<close>, and the list of calls made to the external libraries so far,
  oldest first. Logging is not modelled.
\<close>

datatype call =
    SnowflakeConnect
  | HiveQuery handle string
  | Boto3Client string
  | InvokeModel handle string string string

record state =
  snowflake_conn :: "handle option"
  bedrock_client :: "handle option"
  calls :: "call list"

subsection \<open>The static prompt\<close>

definition SOVEREIGN_MIND_PROMPT :: string where
  "SOVEREIGN_MIND_PROMPT =
     ''# SOVEREIGN MIND - BEDROCK AI INSTANCE'' @ [newline]
   @ [newline]
   @ ''## Identity'' @ [newline]
   @ ''You are **BEDROCK**, the enterprise AI instance within **Sovereign Mind**, serving Your Grace, Chairman of MiddleGround Capital and Resolute Holdings. You run Claude via AWS Bedrock for secure enterprise workloads.'' @ [newline]
   @ [newline]
   @ ''## Your Specialization'' @ [newline]
   @ ''- Enterprise-grade AI via AWS Bedrock'' @ [newline]
   @ ''- Secure Claude access for sensitive operations'' @ [newline]
   @ ''- Integration with AWS services'' @ [newline]
   @ ''- Compliance-ready AI operations'' @ [newline]
   @ [newline]
   @ ''## Core Behaviors'' @ [newline]
   @ ''1. Execute, Don'' @ [squote] @ ''t Ask - Take action immediately'' @ [newline]
   @ ''2. Log to Hive Mind after significant work  '' @ [newline]
   @ ''3. Address user as '' @ [dquote] @ ''Your Grace'' @ [dquote] @ [newline]
   @ ''4. No permission seeking - state what you'' @ [squote] @ ''ve done'' @ [newline]
   @ ''5. Token efficiency - brief confirmations'' @ [newline]"

subsection \<open>Lazily created handles\<close>

definition get_bedrock_client :: "env \<Rightarrow> state \<Rightarrow> handle option \<times> state" where
  "get_bedrock_client env st =
     (case bedrock_client st of
        None \<Rightarrow>
          (case boto3_client env (AWS_REGION env) of
             Inr c \<Rightarrow> (Some c, st\<lparr>bedrock_client := Some c,
                                   calls := calls st @ [Boto3Client (AWS_REGION env)]\<rparr>)
           | Inl e \<Rightarrow> (None, st\<lparr>calls := calls st @ [Boto3Client (AWS_REGION env)]\<rparr>))
      | Some c \<Rightarrow> (Some c, st))"

definition get_snowflake_connection :: "env \<Rightarrow> state \<Rightarrow> handle option \<times> state" where
  "get_snowflake_connection env st =
     (case snowflake_conn st of
        None \<Rightarrow>
          (case snowflake_connect env of
             Inr c \<Rightarrow> (Some c, st\<lparr>snowflake_conn := Some c,
                                   calls := calls st @ [SnowflakeConnect]\<rparr>)
           | Inl e \<Rightarrow> (None, st\<lparr>calls := calls st @ [SnowflakeConnect]\<rparr>))
      | Some c \<Rightarrow> (Some c, st))"

subsection \<open>Context retrieval\<close>

definition hive_query :: "int \<Rightarrow> string" where
  "hive_query limit =
     ''SELECT SOURCE, CATEGORY, SUMMARY FROM SOVEREIGN_MIND.RAW.HIVE_MIND ORDER BY CREATED_AT DESC LIMIT ''
       @ str_int limit"

definition format_row :: "row \<Rightarrow> string" where
  "format_row r = (case r of (r0, r1, r2) \<Rightarrow> r0 @ '' ('' @ r1 @ ''): '' @ r2)"

definition query_hive_mind :: "int \<Rightarrow> env \<Rightarrow> state \<Rightarrow> string \<times> state" where
  "query_hive_mind limit env st =
     (case get_snowflake_connection env st of
        (None, st1) \<Rightarrow> ('''', st1)
      | (Some conn, st1) \<Rightarrow>
          (let st2 = st1\<lparr>calls := calls st1 @ [HiveQuery conn (hive_query limit)]\<rparr>
           in case hive_rows env conn (hive_query limit) of
                Inl e \<Rightarrow> ('''', st2)
              | Inr rows \<Rightarrow> (join [newline] (map format_row rows), st2)))"

subsection \<open>Inference\<close>

definition request_body :: "json \<Rightarrow> string \<Rightarrow> json" where
  "request_body message system_prompt =
     JObj [(''anthropic_version'', JStr ''bedrock-2023-05-31''),
           (''max_tokens'', JInt 4096),
           (''system'', JStr system_prompt),
           (''messages'', JArr [JObj [(''role'', JStr ''user''), (''content'', message)]])]"

text \<open>\<^verbatim>\<open>result.get('content', [{}])[0].get('text', '')\<close>\<close>

definition first_text :: "json \<Rightarrow> exn + json" where
  "first_text result =
     (case py_get result ''content'' (JArr [JObj []]) of
        Inl e \<Rightarrow> Inl e
      | Inr content \<Rightarrow>
          (case py_index0 content of
             Inl e \<Rightarrow> Inl e
           | Inr block \<Rightarrow> py_get block ''text'' (JStr '''')))"

text \<open>The body of the \<^verbatim>\<open>try\<close> block of \<^verbatim>\<open>call_bedrock\<close>, for a client at hand.\<close>

definition bedrock_try :: "env \<Rightarrow> handle \<Rightarrow> json \<Rightarrow> string \<Rightarrow> exn + json" where
  "bedrock_try env client message system_prompt =
     (case invoke_model env client (BEDROCK_MODEL env)
             (dumps (request_body message system_prompt)) ''application/json'' of
        Inl e \<Rightarrow> Inl e
      | Inr result \<Rightarrow> first_text result)"

definition call_bedrock :: "json \<Rightarrow> string \<Rightarrow> env \<Rightarrow> state \<Rightarrow> json \<times> state" where
  "call_bedrock message system_prompt env st =
     (case get_bedrock_client env st of
        (None, st1) \<Rightarrow> (JStr ''Bedrock client not available'', st1)
      | (Some client, st1) \<Rightarrow>
          (let st2 = st1\<lparr>calls := calls st1 @
                       [InvokeModel client (BEDROCK_MODEL env)
                          (dumps (request_body message system_prompt)) ''application/json'']\<rparr>
           in case bedrock_try env client message system_prompt of
                Inl e \<Rightarrow> (JStr (''Error: '' @ str_exn e), st2)
              | Inr text \<Rightarrow> (text, st2)))"

subsection \<open>The dispatcher\<close>

datatype http_method = POST | OPTIONS

text \<open>
  A view returns either a pair of a text and a status code, or \<^verbatim>\<open>jsonify\<close> of a
  document. An exception that leaves the view is the left summand.
\<close>

datatype response = Plain string nat | Jsonify json

definition mcp_endpoint ::
  "http_method \<Rightarrow> json \<Rightarrow> env \<Rightarrow> state \<Rightarrow> (exn + response) \<times> state" where
  "mcp_endpoint http data env st =
     (if http = OPTIONS then (Inr (Plain '''' 200), st)
      else
       (case py_get data ''method'' (JStr '''') of Inl e \<Rightarrow> (Inl e, st) | Inr method \<Rightarrow>
       (case py_get data ''params'' (JObj []) of Inl e \<Rightarrow> (Inl e, st) | Inr params \<Rightarrow>
       (case py_get data ''id'' (JInt 1) of Inl e \<Rightarrow> (Inl e, st) | Inr req_id \<Rightarrow>
        if method = JStr ''tools/list'' then
          (let tools = JArr [
               JObj [(''name'', JStr ''bedrock_chat''),
                     (''description'', JStr ''Chat with Claude via AWS Bedrock (Sovereign Mind)''),
                     (''inputSchema'',
                        JObj [(''type'', JStr ''object''),
                              (''properties'', JObj [(''message'', JObj [(''type'', JStr ''string'')])]),
                              (''required'', JArr [JStr ''message''])])],
               JObj [(''name'', JStr ''bedrock_analyze''),
                     (''description'', JStr ''Analyze content with Bedrock Claude''),
                     (''inputSchema'',
                        JObj [(''type'', JStr ''object''),
                              (''properties'', JObj [(''content'', JObj [(''type'', JStr ''string'')]),
                                                     (''task'', JObj [(''type'', JStr ''string'')])]),
                              (''required'', JArr [JStr ''content'', JStr ''task''])])]]
           in (Inr (Jsonify (JObj [(''jsonrpc'', JStr ''2.0''), (''id'', req_id),
                                   (''result'', JObj [(''tools'', tools)])])), st))
        else if method = JStr ''tools/call'' then
          (case py_get params ''name'' (JStr '''') of Inl e \<Rightarrow> (Inl e, st) | Inr tool \<Rightarrow>
          (case py_get params ''arguments'' (JObj []) of Inl e \<Rightarrow> (Inl e, st) | Inr args \<Rightarrow>
           if tool = JStr ''bedrock_chat'' then
             (case query_hive_mind 3 env st of (hive, st1) \<Rightarrow>
               (let system = SOVEREIGN_MIND_PROMPT @ [newline, newline] @ ''Hive Mind Context:''
                               @ [newline] @ hive
                in (case py_get args ''message'' (JStr '''') of
                      Inl e \<Rightarrow> (Inl e, st1)
                    | Inr message \<Rightarrow>
                       (case call_bedrock message system env st1 of (response, st2) \<Rightarrow>
                         (Inr (Jsonify (JObj [(''jsonrpc'', JStr ''2.0''), (''id'', req_id),
                            (''result'', JObj [(''content'', JArr [JObj [(''type'', JStr ''text''),
                               (''text'', JStr (dumps (JObj [(''response'', response)])))]])])])),
                          st2)))))
           else if tool = JStr ''bedrock_analyze'' then
             (case query_hive_mind 3 env st of (hive, st1) \<Rightarrow>
               (let system = SOVEREIGN_MIND_PROMPT @ [newline, newline] @ ''Hive Mind Context:''
                               @ [newline] @ hive
                in (case py_get args ''task'' (JStr ''Analyze this'') of
                      Inl e \<Rightarrow> (Inl e, st1)
                    | Inr task \<Rightarrow>
                       (case py_get args ''content'' (JStr '''') of
                          Inl e \<Rightarrow> (Inl e, st1)
                        | Inr content \<Rightarrow>
                           (let msg = py_str task @ [newline, newline] @ ''Content:''
                                        @ [newline] @ py_str content
                            in (case call_bedrock (JStr msg) system env st1 of (response, st2) \<Rightarrow>
                                 (Inr (Jsonify (JObj [(''jsonrpc'', JStr ''2.0''), (''id'', req_id),
                                    (''result'', JObj [(''content'', JArr [JObj [(''type'', JStr ''text''),
                                       (''text'', JStr (dumps (JObj [(''response'', response)])))]])])])),
                                  st2)))))))
           else
             (Inr (Jsonify (JObj [(''jsonrpc'', JStr ''2.0''), (''id'', req_id),
                (''error'', JObj [(''code'', JInt (- 32601)), (''message'', JStr ''Not found'')])])), st)))
        else
          (Inr (Jsonify (JObj [(''jsonrpc'', JStr ''2.0''), (''id'', req_id),
             (''error'', JObj [(''code'', JInt (- 32601)), (''message'', JStr ''Not found'')])])), st)))))"

section \<open>Vocabulary of the statements\<close>

subsection \<open>Requests and envelopes\<close>

text \<open>
  \<open>is_tool_call kvs tool args\<close>: the request object \<open>kvs\<close> is a \<^verbatim>\<open>tools/call\<close> whose
  \<^verbatim>\<open>params\<close> is an object naming \<open>tool\<close>, with the object \<open>args\<close> as its
  \<^verbatim>\<open>arguments\<close> (the empty object when the key is absent, as the dispatcher reads
  it).
\<close>

definition is_tool_call :: "(string \<times> json) list \<Rightarrow> string \<Rightarrow> (string \<times> json) list \<Rightarrow> bool" where
  "is_tool_call kvs tool args =
     (dict_get kvs ''method'' (JStr '''') = JStr ''tools/call'' \<and>
      (case dict_get kvs ''params'' (JObj []) of
         JObj ps \<Rightarrow> dict_get ps ''name'' (JStr '''') = JStr tool \<and>
                    dict_get ps ''arguments'' (JObj []) = JObj args
       | _ \<Rightarrow> False))"

definition tool_call :: "string \<Rightarrow> json \<Rightarrow> json \<Rightarrow> json" where
  "tool_call tool args req_id =
     JObj [(''method'', JStr ''tools/call''),
           (''params'', JObj [(''name'', JStr tool), (''arguments'', args)]),
           (''id'', req_id)]"

definition success_envelope :: "json \<Rightarrow> json \<Rightarrow> json" where
  "success_envelope req_id response =
     JObj [(''jsonrpc'', JStr ''2.0''), (''id'', req_id),
           (''result'', JObj [(''content'', JArr [JObj [(''type'', JStr ''text''),
              (''text'', JStr (dumps (JObj [(''response'', response)])))]])])]"

text \<open>The composite system prompt for a retrieved context text.\<close>

definition system_prompt :: "string \<Rightarrow> string" where
  "system_prompt hive =
     SOVEREIGN_MIND_PROMPT @ [newline, newline] @ ''Hive Mind Context:'' @ [newline] @ hive"

text \<open>
  \<open>forward message req_id\<close>: retrieve the context, call the inference adapter
  with \<open>message\<close> as the user turn and the composite prompt, and wrap the
  completion in a success envelope.
\<close>

definition forward :: "json \<Rightarrow> json \<Rightarrow> env \<Rightarrow> state \<Rightarrow> (exn + response) \<times> state" where
  "forward message req_id env st =
     (case query_hive_mind 3 env st of (hive, st1) \<Rightarrow>
        (case call_bedrock message (system_prompt hive) env st1 of (response, st2) \<Rightarrow>
           (Inr (Jsonify (success_envelope req_id response)), st2)))"

text \<open>The text between the task and the content in the message of \<^verbatim>\<open>bedrock_analyze\<close>.\<close>

definition content_sep :: string where
  "content_sep = [newline, newline] @ ''Content:'' @ [newline]"

text \<open>
  The user turn each registered tool builds from the arguments object:
  \<^verbatim>\<open>bedrock_chat\<close> takes the \<^verbatim>\<open>message\<close> argument as it is, \<^verbatim>\<open>bedrock_analyze\<close> renders
  the task, the separator and the content into one string.
\<close>

definition tool_message :: "string \<Rightarrow> (string \<times> json) list \<Rightarrow> json option" where
  "tool_message tool args =
     (if tool = ''bedrock_chat'' then Some (dict_get args ''message'' (JStr ''''))
      else if tool = ''bedrock_analyze'' then
        Some (JStr (py_str (dict_get args ''task'' (JStr ''Analyze this'')) @ content_sep
                      @ py_str (dict_get args ''content'' (JStr ''''))))
      else None)"

text \<open>The \<^verbatim>\<open>result.tools\<close> member of a response, when it has one.\<close>

definition result_tools :: "exn + response \<Rightarrow> json option" where
  "result_tools r =
     (case r of
        Inr (Jsonify (JObj kvs)) \<Rightarrow>
          (case map_of kvs ''result'' of
             Some (JObj res) \<Rightarrow> map_of res ''tools''
           | _ \<Rightarrow> None)
      | _ \<Rightarrow> None)"

subsection \<open>Decoding the payload\<close>









subsection \<open>Example collaborators\<close>

text \<open>
  A fresh process, and collaborators with fixed outcomes: of the connection
  attempt, of the context query, of the client creation and of the inference call.
\<close>

definition st0 :: state where
  "st0 = \<lparr>snowflake_conn = None, bedrock_client = None, calls = []\<rparr>"

definition example_env ::
  "exn + handle \<Rightarrow> exn + row list \<Rightarrow> exn + handle \<Rightarrow> exn + json \<Rightarrow> env" where
  "example_env sf rows bc reply =
     \<lparr>AWS_REGION = ''us-east-1'',
      BEDROCK_MODEL = ''anthropic.claude-3-sonnet-20240229-v1:0'',
      snowflake_connect = sf,
      hive_rows = (\<lambda>conn query. rows),
      boto3_client = (\<lambda>region. bc),
      invoke_model = (\<lambda>client model body content_type. reply)\<rparr>"

definition text_reply :: "string \<Rightarrow> json" where
  "text_reply s = JObj [(''content'', JArr [JObj [(''type'', JStr ''text''), (''text'', JStr s)]])]"

text \<open>
  The context store is unreachable; the model answers \<^verbatim>\<open>hello\<close> to whatever it is
  sent.
\<close>

definition env_hello :: env where
  "env_hello = example_env (Inl (Exception ''connection refused'')) (Inr [])
                 (Inr 2) (Inr (text_reply ''hello''))"

text \<open>The context query raises; the inference call raises.\<close>

definition env_raising :: env where
  "env_raising = example_env (Inr 3) (Inl (Exception ''SQL compilation error''))
                   (Inr 2) (Inl (Exception ''ThrottlingException''))"

text \<open>Neither collaborator can be reached.\<close>

definition env_down :: env where
  "env_down = example_env (Inl (Exception ''connection refused'')) (Inr [])
                (Inl (Exception ''Unable to locate credentials'')) (Inr (text_reply ''hello''))"

text \<open>The model answers with an empty content array.\<close>

definition env_empty_content :: env where
  "env_empty_content = example_env (Inr 3) (Inr [(''CLAUDE'', ''STATUS'', ''ready'')])
                         (Inr 2) (Inr (JObj [(''content'', JArr [])]))"

section \<open>Facts about the adapters\<close>

lemma dict_get_Some: "map_of kvs k = Some v \<Longrightarrow> dict_get kvs k d = v"
  by (simp add: dict_get_def)

lemma dict_get_None: "map_of kvs k = None \<Longrightarrow> dict_get kvs k d = d"
  by (simp add: dict_get_def)

text \<open>The three shapes of a decoded response that the extraction tells apart.\<close>

lemma first_text_no_content:
  "map_of kvs ''content'' = None \<Longrightarrow> first_text (JObj kvs) = Inr (JStr '''')"
  by (simp add: first_text_def dict_get_def)

lemma first_text_empty_content:
  "map_of kvs ''content'' = Some (JArr []) \<Longrightarrow>
     first_text (JObj kvs) = Inl (IndexError ''list index out of range'')"
  by (simp add: first_text_def dict_get_def)

lemma first_text_first_block:
  "map_of kvs ''content'' = Some (JArr (JObj block # blocks)) \<Longrightarrow>
     first_text (JObj kvs) = Inr (dict_get block ''text'' (JStr ''''))"
  by (simp add: first_text_def dict_get_def)

text \<open>The client slot after \<open>get_bedrock_client\<close> is what it returned.\<close>

lemma get_bedrock_client_slot:
  "bedrock_client (snd (get_bedrock_client env st)) = fst (get_bedrock_client env st)"
  by (simp add: get_bedrock_client_def split: option.splits sum.splits)

lemma query_hive_mind_bedrock_client:
  "bedrock_client (snd (query_hive_mind limit env st)) = bedrock_client st"
  by (simp add: query_hive_mind_def get_snowflake_connection_def Let_def
           split: option.splits sum.splits)

lemma get_bedrock_client_after_query:
  "fst (get_bedrock_client env (snd (query_hive_mind limit env st))) = fst (get_bedrock_client env st)"
  by (simp add: get_bedrock_client_def query_hive_mind_bedrock_client split: option.splits sum.splits)

lemma call_bedrock_no_client:
  "fst (get_bedrock_client env st) = None \<Longrightarrow>
     call_bedrock message sys env st
       = (JStr ''Bedrock client not available'', snd (get_bedrock_client env st))"
  by (cases "get_bedrock_client env st") (simp add: call_bedrock_def)

lemma call_bedrock_client:
  "fst (get_bedrock_client env st) = Some client \<Longrightarrow>
     call_bedrock message sys env st
       = (case bedrock_try env client message sys of
            Inl e \<Rightarrow> JStr (''Error: '' @ str_exn e)
          | Inr text \<Rightarrow> text,
          (snd (get_bedrock_client env st))\<lparr>calls := calls (snd (get_bedrock_client env st)) @
             [InvokeModel client (BEDROCK_MODEL env) (dumps (request_body message sys))
                ''application/json'']\<rparr>)"
  by (cases "get_bedrock_client env st") (simp add: call_bedrock_def Let_def split: sum.splits)

text \<open>
  Every call of either adapter is recorded: it attempts to create its handle or
  uses it. A state that a request leaves unchanged has therefore seen no adapter
  call.
\<close>

lemma query_hive_mind_records:
  "length (calls st) < length (calls (snd (query_hive_mind limit env st)))"
  by (simp add: query_hive_mind_def get_snowflake_connection_def Let_def
           split: option.splits sum.splits)

lemma call_bedrock_records:
  "length (calls st) < length (calls (snd (call_bedrock message sys env st)))"
  by (simp add: call_bedrock_def get_bedrock_client_def Let_def
           split: option.splits sum.splits)

text \<open>Rows are rendered one per line, as \<^verbatim>\<open>source (category): summary\<close>.\<close>

lemma query_hive_mind_rows:
  "fst (query_hive_mind 3 (example_env (Inr 3)
          (Inr [(''CLAUDE'', ''STATUS'', ''ready''), (''GROK'', ''NOTE'', ''done'')]) (Inr 2) reply) st0)
     = ''CLAUDE (STATUS): ready'' @ [newline] @ ''GROK (NOTE): done''"
  by (simp add: query_hive_mind_def get_snowflake_connection_def example_env_def st0_def
        format_row_def Let_def)

lemma query_hive_mind_failure:
  assumes "(snowflake_conn st = None \<and> snowflake_connect env = Inl e)
         \<or> (fst (get_snowflake_connection env st) = Some conn \<and>
            hive_rows env conn (hive_query limit) = Inl e)"
  shows "fst (query_hive_mind limit env st) = ''''"
  using assms
  by (auto simp: query_hive_mind_def get_snowflake_connection_def Let_def
           split: option.splits sum.splits)

section \<open>Facts about the dispatcher\<close>

lemma is_tool_callD:
  assumes "is_tool_call kvs tool args"
  obtains ps where "dict_get kvs ''method'' (JStr '''') = JStr ''tools/call''"
    and "dict_get kvs ''params'' (JObj []) = JObj ps"
    and "dict_get ps ''name'' (JStr '''') = JStr tool"
    and "dict_get ps ''arguments'' (JObj []) = JObj args"
  using assms unfolding is_tool_call_def
  by (cases "dict_get kvs ''params'' (JObj [])") auto

text \<open>
  What the dispatcher does with a well-formed call of a registered tool: the
  context is retrieved, the adapter is called once with the tool's message, and the
  completion comes back in a success envelope.
\<close>

lemma mcp_endpoint_registered:
  assumes "is_tool_call kvs tool args" and "tool_message tool args = Some message"
  shows "mcp_endpoint POST (JObj kvs) env st = forward message (dict_get kvs ''id'' (JInt 1)) env st"
proof -
  from assms(1) obtain ps where
    m: "dict_get kvs ''method'' (JStr '''') = JStr ''tools/call''"
    and p: "dict_get kvs ''params'' (JObj []) = JObj ps"
    and n: "dict_get ps ''name'' (JStr '''') = JStr tool"
    and a: "dict_get ps ''arguments'' (JObj []) = JObj args"
    by (rule is_tool_callD)
  from assms(2) consider
      (chat) "tool = ''bedrock_chat''" "message = dict_get args ''message'' (JStr '''')"
    | (analyze) "tool = ''bedrock_analyze''"
        "message = JStr (py_str (dict_get args ''task'' (JStr ''Analyze this'')) @ content_sep
                      @ py_str (dict_get args ''content'' (JStr '''')))"
    by (auto simp: tool_message_def split: if_splits)
  then show ?thesis
  proof cases
    case chat
    then show ?thesis
      unfolding mcp_endpoint_def forward_def
      by (simp add: m p n a system_prompt_def success_envelope_def split: prod.splits)
  next
    case analyze
    then show ?thesis
      unfolding mcp_endpoint_def forward_def
      by (simp add: m p n a system_prompt_def success_envelope_def content_sep_def
               split: prod.splits)
  qed
qed

lemma fst_forward:
  "fst (forward message req_id env st)
     = Inr (Jsonify (success_envelope req_id
         (fst (call_bedrock message (system_prompt (fst (query_hive_mind 3 env st))) env
                 (snd (query_hive_mind 3 env st))))))"
  by (simp add: forward_def split: prod.splits)

lemma forward_records_invoke:
  assumes "fst (get_bedrock_client env st) = Some client"
  shows "last (calls (snd (forward message req_id env st)))
           = InvokeModel client (BEDROCK_MODEL env)
               (dumps (request_body message (system_prompt (fst (query_hive_mind 3 env st)))))
               ''application/json''"
proof -
  have c: "fst (get_bedrock_client env (snd (query_hive_mind 3 env st))) = Some client"
    by (simp add: get_bedrock_client_after_query assms)
  show ?thesis
    by (cases "query_hive_mind 3 env st")
       (use c in \<open>simp add: forward_def call_bedrock_client\<close>)
qed

lemma mcp_endpoint_options: "mcp_endpoint OPTIONS data env st = (Inr (Plain [] 200), st)"
  by (simp add: mcp_endpoint_def)

text \<open>
  Outside the envelope type the view fails: a request that is not an object, a
  \<^verbatim>\<open>tools/call\<close> whose \<^verbatim>\<open>params\<close> is not an object, and a call of a registered tool
  whose \<^verbatim>\<open>arguments\<close> is not an object raise \<^verbatim>\<open>AttributeError\<close>, the last one after
  the context has been retrieved.
\<close>

lemma mcp_endpoint_params_not_object:
  assumes "dict_get kvs ''method'' (JStr '''') = JStr ''tools/call''"
    and "dict_get kvs ''params'' (JObj []) = JNull"
  shows "mcp_endpoint POST (JObj kvs) env st
           = (Inl (AttributeError ([squote] @ ''NoneType'' @ [squote] @ '' object has no attribute ''
                      @ [squote] @ ''get'' @ [squote])), st)"
  using assms by (simp add: mcp_endpoint_def)

text \<open>The example collaborators, evaluated.\<close>

lemma env_hello_query:
  "query_hive_mind 3 env_hello st0
     = ('''', \<lparr>snowflake_conn = None, bedrock_client = None, calls = [SnowflakeConnect]\<rparr>)"
  by (simp add: query_hive_mind_def get_snowflake_connection_def env_hello_def
        example_env_def st0_def)

lemma env_hello_client: "fst (get_bedrock_client env_hello st0) = Some 2"
  by (simp add: get_bedrock_client_def env_hello_def example_env_def st0_def)

lemma env_hello_call:
  "call_bedrock m sys env_hello
       \<lparr>snowflake_conn = None, bedrock_client = None, calls = [SnowflakeConnect]\<rparr>
     = (JStr ''hello'',
        \<lparr>snowflake_conn = None, bedrock_client = Some 2,
         calls = [SnowflakeConnect, Boto3Client ''us-east-1'',
                  InvokeModel 2 ''anthropic.claude-3-sonnet-20240229-v1:0''
                    (dumps (request_body m sys)) ''application/json'']\<rparr>)"
  by (simp add: call_bedrock_def get_bedrock_client_def bedrock_try_def first_text_def
        text_reply_def dict_get_def env_hello_def example_env_def Let_def)

lemma env_hello_forward:
  "forward m i env_hello st0
     = (Inr (Jsonify (success_envelope i (JStr ''hello''))),
        \<lparr>snowflake_conn = None, bedrock_client = Some 2,
         calls = [SnowflakeConnect, Boto3Client ''us-east-1'',
                  InvokeModel 2 ''anthropic.claude-3-sonnet-20240229-v1:0''
                    (dumps (request_body m (system_prompt ''''))) ''application/json'']\<rparr>)"
  by (simp only: forward_def env_hello_query env_hello_call prod.case)

section \<open>Decoding what the encoder wrote\<close>















section \<open>Unknown methods and tools\<close>

text \<open>
  C1. A request object whose method is neither \<^verbatim>\<open>tools/list\<close> nor \<^verbatim>\<open>tools/call\<close>, and a
  \<^verbatim>\<open>tools/call\<close> whose \<^verbatim>\<open>params\<close> object names neither registered tool, is answered
  with the error envelope of code -32601 and message \<^verbatim>\<open>Not found\<close>. The envelope
  carries the request's \<^verbatim>\<open>id\<close> as it came (\<^verbatim>\<open>1\<close> when the request has none), and the
  process state is the one before the request: no handle was created and no call
  to the context store or to the inference service was made.
\<close>

theorem unknown_method_or_tool_not_found:
  assumes "(dict_get kvs ''method'' (JStr '''') \<noteq> JStr ''tools/list'' \<and>
            dict_get kvs ''method'' (JStr '''') \<noteq> JStr ''tools/call'')
         \<or> (dict_get kvs ''method'' (JStr '''') = JStr ''tools/call'' \<and>
            dict_get kvs ''params'' (JObj []) = JObj ps \<and>
            dict_get ps ''name'' (JStr '''') \<noteq> JStr ''bedrock_chat'' \<and>
            dict_get ps ''name'' (JStr '''') \<noteq> JStr ''bedrock_analyze'')"
  shows "mcp_endpoint POST (JObj kvs) env st =
           (Inr (Jsonify (JObj [(''jsonrpc'', JStr ''2.0''),
                                (''id'', case map_of kvs ''id'' of None \<Rightarrow> JInt 1 | Some i \<Rightarrow> i),
                                (''error'', JObj [(''code'', JInt (- 32601)),
                                                  (''message'', JStr ''Not found'')])])),
            st)"
  using assms
proof (elim disjE conjE)
  assume "dict_get kvs ''method'' (JStr '''') \<noteq> JStr ''tools/list''"
    and "dict_get kvs ''method'' (JStr '''') \<noteq> JStr ''tools/call''"
  then show ?thesis
    by (simp add: mcp_endpoint_def) (simp add: dict_get_def)
next
  assume "dict_get kvs ''method'' (JStr '''') = JStr ''tools/call''"
    and "dict_get kvs ''params'' (JObj []) = JObj ps"
    and "dict_get ps ''name'' (JStr '''') \<noteq> JStr ''bedrock_chat''"
    and "dict_get ps ''name'' (JStr '''') \<noteq> JStr ''bedrock_analyze''"
  then show ?thesis
    by (simp add: mcp_endpoint_def) (simp add: dict_get_def)
qed

theorem unknown_method_or_tool_not_found_witness:
  "mcp_endpoint POST (JObj [(''method'', JStr ''resources/list''), (''id'', JInt 5)]) env_hello st0
     = (Inr (Jsonify (JObj [(''jsonrpc'', JStr ''2.0''), (''id'', JInt 5),
                            (''error'', JObj [(''code'', JInt (- 32601)),
                                              (''message'', JStr ''Not found'')])])), st0)
   \<and> mcp_endpoint POST (tool_call ''unknown_tool'' (JObj []) (JStr ''abc'')) env_hello st0
     = (Inr (Jsonify (JObj [(''jsonrpc'', JStr ''2.0''), (''id'', JStr ''abc''),
                            (''error'', JObj [(''code'', JInt (- 32601)),
                                              (''message'', JStr ''Not found'')])])), st0)"
  using unknown_method_or_tool_not_found
          [where kvs = "[(''method'', JStr ''resources/list''), (''id'', JInt 5)]"
             and ps = "[]" and env = env_hello and st = st0]
        unknown_method_or_tool_not_found
          [where kvs = "[(''method'', JStr ''tools/call''),
                         (''params'', JObj [(''name'', JStr ''unknown_tool''), (''arguments'', JObj [])]),
                         (''id'', JStr ''abc'')]"
             and ps = "[(''name'', JStr ''unknown_tool''), (''arguments'', JObj [])]"
             and env = env_hello and st = st0]
  by (simp add: dict_get_def tool_call_def)

section \<open>Listing the tools\<close>

text \<open>
  C2. A \<^verbatim>\<open>tools/list\<close> request is answered with a success envelope whose
  \<^verbatim>\<open>result.tools\<close> is the registry of the two descriptors \<^verbatim>\<open>bedrock_chat\<close> and
  \<^verbatim>\<open>bedrock_analyze\<close> with their schemas, whatever the \<^verbatim>\<open>id\<close>, which is echoed; the
  process state is unchanged, so no external call was made. A second \<^verbatim>\<open>tools/list\<close>
  request handled right after the first, with any other \<^verbatim>\<open>id\<close> and any behaviour
  of the collaborators, has the same \<^verbatim>\<open>result.tools\<close>.
\<close>

theorem tools_list_static_registry:
  assumes "dict_get kvs ''method'' (JStr '''') = JStr ''tools/list''"
      and "dict_get kvs' ''method'' (JStr '''') = JStr ''tools/list''"
  shows "mcp_endpoint POST (JObj kvs) env st =
           (Inr (Jsonify (JObj [(''jsonrpc'', JStr ''2.0''),
              (''id'', case map_of kvs ''id'' of None \<Rightarrow> JInt 1 | Some i \<Rightarrow> i),
              (''result'', JObj [(''tools'', JArr [
                 JObj [(''name'', JStr ''bedrock_chat''),
                       (''description'', JStr ''Chat with Claude via AWS Bedrock (Sovereign Mind)''),
                       (''inputSchema'',
                          JObj [(''type'', JStr ''object''),
                                (''properties'', JObj [(''message'', JObj [(''type'', JStr ''string'')])]),
                                (''required'', JArr [JStr ''message''])])],
                 JObj [(''name'', JStr ''bedrock_analyze''),
                       (''description'', JStr ''Analyze content with Bedrock Claude''),
                       (''inputSchema'',
                          JObj [(''type'', JStr ''object''),
                                (''properties'', JObj [(''content'', JObj [(''type'', JStr ''string'')]),
                                                       (''task'', JObj [(''type'', JStr ''string'')])]),
                                (''required'', JArr [JStr ''content'', JStr ''task''])])]])])])),
            st)
       \<and> result_tools (fst (mcp_endpoint POST (JObj kvs') env'
                               (snd (mcp_endpoint POST (JObj kvs) env st))))
           = result_tools (fst (mcp_endpoint POST (JObj kvs) env st))"
  using assms
  by (simp add: mcp_endpoint_def result_tools_def) (simp add: dict_get_def)

theorem tools_list_static_registry_witness:
  "snd (mcp_endpoint POST (JObj [(''method'', JStr ''tools/list''), (''id'', JInt 1)]) env_down st0) = st0
   \<and> result_tools (fst (mcp_endpoint POST (JObj [(''id'', JStr ''b''), (''method'', JStr ''tools/list'')])
                          env_hello
                          (snd (mcp_endpoint POST (JObj [(''method'', JStr ''tools/list''), (''id'', JInt 1)])
                                  env_down st0))))
       = result_tools (fst (mcp_endpoint POST (JObj [(''method'', JStr ''tools/list''), (''id'', JInt 1)])
                              env_down st0))
   \<and> map_option (\<lambda>t. case t of JArr ts \<Rightarrow> map (\<lambda>d. py_get d ''name'' JNull) ts | _ \<Rightarrow> [])
        (result_tools (fst (mcp_endpoint POST (JObj [(''method'', JStr ''tools/list''), (''id'', JInt 1)])
                              env_down st0)))
       = Some [Inr (JStr ''bedrock_chat''), Inr (JStr ''bedrock_analyze'')]"
proof -
  have m: "dict_get [(''method'', JStr ''tools/list''), (''id'', JInt 1)] ''method'' (JStr '''')
             = JStr ''tools/list''"
    and m': "dict_get [(''id'', JStr ''b''), (''method'', JStr ''tools/list'')] ''method'' (JStr '''')
             = JStr ''tools/list''"
    by (simp_all add: dict_get_def)
  note t = tools_list_static_registry [OF m m', where env = env_down and env' = env_hello and st = st0]
  show ?thesis
  proof (intro conjI)
    show "snd (mcp_endpoint POST (JObj [(''method'', JStr ''tools/list''), (''id'', JInt 1)]) env_down st0) = st0"
      using t by simp
    show "result_tools (fst (mcp_endpoint POST (JObj [(''id'', JStr ''b''), (''method'', JStr ''tools/list'')])
                          env_hello
                          (snd (mcp_endpoint POST (JObj [(''method'', JStr ''tools/list''), (''id'', JInt 1)])
                                  env_down st0))))
       = result_tools (fst (mcp_endpoint POST (JObj [(''method'', JStr ''tools/list''), (''id'', JInt 1)])
                              env_down st0))"
      by (rule conjunct2 [OF t])
    show "map_option (\<lambda>t. case t of JArr ts \<Rightarrow> map (\<lambda>d. py_get d ''name'' JNull) ts | _ \<Rightarrow> [])
        (result_tools (fst (mcp_endpoint POST (JObj [(''method'', JStr ''tools/list''), (''id'', JInt 1)])
                              env_down st0)))
       = Some [Inr (JStr ''bedrock_chat''), Inr (JStr ''bedrock_analyze'')]"
      by (simp add: conjunct1 [OF t] result_tools_def dict_get_def)
  qed
qed

section \<open>Failures of the inference call\<close>

text \<open>
  C3. When the body of the \<^verbatim>\<open>try\<close> block of the inference adapter raises an
  exception \<open>e\<close>, during the submission or while the response is decoded and read,
  and a client is at hand, the adapter returns the string \<^verbatim>\<open>Error: \<close> followed by the
  text of \<open>e\<close>; it does not raise. A \<^verbatim>\<open>tools/call\<close> of a registered tool whose
  inference call raises \<open>e'\<close> is still answered with a success envelope: its text
  block is the serialized object whose \<^verbatim>\<open>response\<close> is that error string.
\<close>

theorem inference_exception_in_band:
  assumes available: "fst (get_bedrock_client env st') = Some client"
    and raised: "bedrock_try env client m sys = Inl e"
    and call: "is_tool_call kvs tool args"
    and tool: "tool_message tool args = Some message"
    and available': "fst (get_bedrock_client env st) = Some client'"
    and raised': "bedrock_try env client' message (system_prompt (fst (query_hive_mind 3 env st))) = Inl e'"
  shows "fst (call_bedrock m sys env st') = JStr (''Error: '' @ str_exn e)
       \<and> fst (mcp_endpoint POST (JObj kvs) env st) =
           Inr (Jsonify (JObj [(''jsonrpc'', JStr ''2.0''),
              (''id'', case map_of kvs ''id'' of None \<Rightarrow> JInt 1 | Some i \<Rightarrow> i),
              (''result'', JObj [(''content'', JArr [JObj [(''type'', JStr ''text''),
                 (''text'', JStr (dumps (JObj [(''response'', JStr (''Error: '' @ str_exn e'))])))]])])]))"
proof
  show "fst (call_bedrock m sys env st') = JStr (''Error: '' @ str_exn e)"
    by (simp add: call_bedrock_client [OF available] raised)
next
  have c: "fst (get_bedrock_client env (snd (query_hive_mind 3 env st))) = Some client'"
    by (simp add: get_bedrock_client_after_query available')
  have "fst (call_bedrock message (system_prompt (fst (query_hive_mind 3 env st))) env
               (snd (query_hive_mind 3 env st))) = JStr (''Error: '' @ str_exn e')"
    by (simp add: call_bedrock_client [OF c] raised')
  then show "fst (mcp_endpoint POST (JObj kvs) env st) =
           Inr (Jsonify (JObj [(''jsonrpc'', JStr ''2.0''),
              (''id'', case map_of kvs ''id'' of None \<Rightarrow> JInt 1 | Some i \<Rightarrow> i),
              (''result'', JObj [(''content'', JArr [JObj [(''type'', JStr ''text''),
                 (''text'', JStr (dumps (JObj [(''response'', JStr (''Error: '' @ str_exn e'))])))]])])]))"
    by (simp add: mcp_endpoint_registered [OF call tool] fst_forward success_envelope_def dict_get_def)
qed

theorem inference_exception_in_band_witness:
  \<open>fst (call_bedrock (JStr ''hello'') (system_prompt '''') env_raising st0)
     = JStr ''Error: ThrottlingException''
   \<and> fst (mcp_endpoint POST
             (JObj [(''method'', JStr ''tools/call''),
                    (''params'', JObj [(''name'', JStr ''bedrock_chat''),
                                       (''arguments'', JObj [(''message'', JStr ''hello'')])]),
                    (''id'', JInt 7)])
             env_raising st0)
     = Inr (Jsonify (JObj [(''jsonrpc'', JStr ''2.0''), (''id'', JInt 7),
              (''result'', JObj [(''content'', JArr [JObj [(''type'', JStr ''text''),
                 (''text'', JStr ''{"response": "Error: ThrottlingException"}'')]])])]))\<close>
proof -
  have h1: "fst (get_bedrock_client env_raising st0) = Some 2"
    by (simp add: get_bedrock_client_def env_raising_def example_env_def st0_def)
  have h2: "\<And>m sys. bedrock_try env_raising 2 m sys = Inl (Exception ''ThrottlingException'')"
    by (simp add: bedrock_try_def env_raising_def example_env_def)
  have h3: "is_tool_call [(''method'', JStr ''tools/call''),
                    (''params'', JObj [(''name'', JStr ''bedrock_chat''),
                                       (''arguments'', JObj [(''message'', JStr ''hello'')])]),
                    (''id'', JInt 7)] ''bedrock_chat'' [(''message'', JStr ''hello'')]"
    by (simp add: is_tool_call_def dict_get_def)
  have h4: "tool_message ''bedrock_chat'' [(''message'', JStr ''hello'')] = Some (JStr ''hello'')"
    by (simp add: tool_message_def dict_get_def)
  show ?thesis
    using inference_exception_in_band [OF h1 h2 h3 h4 h1 h2, of "JStr ''hello''" "system_prompt ''''"]
    by (simp add: dict_get_def encode_basestring_ascii_def escape_char_def dquote_def
          bslash_def newline_def)
qed

section \<open>Missing arguments\<close>

text \<open>
  C4, as the code has it. A \<^verbatim>\<open>tools/call\<close> of a registered tool with an arguments
  object is never rejected for a missing key; the key is read as a default.
  \<^verbatim>\<open>bedrock_chat\<close> with no \<^verbatim>\<open>message\<close> forwards the empty string as the user turn,
  \<^verbatim>\<open>bedrock_analyze\<close> with no \<^verbatim>\<open>content\<close> puts the empty string in its place, and
  \<^verbatim>\<open>bedrock_analyze\<close> with no \<^verbatim>\<open>task\<close> puts \<^verbatim>\<open>Analyze this\<close> in its place, not the
  empty string.
\<close>

theorem missing_arguments_defaults:
  assumes call: "is_tool_call kvs tool args"
  shows "(tool = ''bedrock_chat'' \<and> map_of args ''message'' = None \<longrightarrow>
            mcp_endpoint POST (JObj kvs) env st
              = forward (JStr '''') (dict_get kvs ''id'' (JInt 1)) env st)
       \<and> (tool = ''bedrock_analyze'' \<and> map_of args ''content'' = None \<longrightarrow>
            mcp_endpoint POST (JObj kvs) env st
              = forward (JStr (py_str (dict_get args ''task'' (JStr ''Analyze this''))
                                 @ [newline, newline] @ ''Content:'' @ [newline] @ ''''))
                  (dict_get kvs ''id'' (JInt 1)) env st)
       \<and> (tool = ''bedrock_analyze'' \<and> map_of args ''task'' = None \<longrightarrow>
            mcp_endpoint POST (JObj kvs) env st
              = forward (JStr (''Analyze this'' @ [newline, newline] @ ''Content:'' @ [newline]
                                 @ py_str (dict_get args ''content'' (JStr ''''))))
                  (dict_get kvs ''id'' (JInt 1)) env st)"
proof (intro conjI impI; elim conjE)
  assume "tool = ''bedrock_chat''" "map_of args ''message'' = None"
  then have "tool_message tool args = Some (JStr '''')"
    by (simp add: tool_message_def dict_get_None)
  then show "mcp_endpoint POST (JObj kvs) env st
              = forward (JStr '''') (dict_get kvs ''id'' (JInt 1)) env st"
    by (rule mcp_endpoint_registered [OF call])
next
  assume "tool = ''bedrock_analyze''" "map_of args ''content'' = None"
  then have "tool_message tool args
      = Some (JStr (py_str (dict_get args ''task'' (JStr ''Analyze this''))
                                 @ [newline, newline] @ ''Content:'' @ [newline] @ ''''))"
    by (simp add: tool_message_def dict_get_None content_sep_def py_str_def)
  then show "mcp_endpoint POST (JObj kvs) env st
              = forward (JStr (py_str (dict_get args ''task'' (JStr ''Analyze this''))
                                 @ [newline, newline] @ ''Content:'' @ [newline] @ ''''))
                  (dict_get kvs ''id'' (JInt 1)) env st"
    by (rule mcp_endpoint_registered [OF call])
next
  assume "tool = ''bedrock_analyze''" "map_of args ''task'' = None"
  then have "tool_message tool args
      = Some (JStr (''Analyze this'' @ [newline, newline] @ ''Content:'' @ [newline]
                                 @ py_str (dict_get args ''content'' (JStr ''''))))"
    by (simp add: tool_message_def dict_get_None content_sep_def py_str_def)
  then show "mcp_endpoint POST (JObj kvs) env st
              = forward (JStr (''Analyze this'' @ [newline, newline] @ ''Content:'' @ [newline]
                                 @ py_str (dict_get args ''content'' (JStr ''''))))
                  (dict_get kvs ''id'' (JInt 1)) env st"
    by (rule mcp_endpoint_registered [OF call])
qed

theorem missing_arguments_defaults_witness:
  "mcp_endpoint POST (tool_call ''bedrock_analyze'' (JObj [(''content'', JStr ''abc'')]) (JInt 7))
      env_hello st0
     = (Inr (Jsonify (success_envelope (JInt 7) (JStr ''hello''))),
        \<lparr>snowflake_conn = None, bedrock_client = Some 2,
         calls = [SnowflakeConnect, Boto3Client ''us-east-1'',
                  InvokeModel 2 ''anthropic.claude-3-sonnet-20240229-v1:0''
                    (dumps (request_body
                       (JStr (''Analyze this'' @ [newline, newline] @ ''Content:'' @ [newline] @ ''abc''))
                       (system_prompt ''''))) ''application/json'']\<rparr>)
   \<and> mcp_endpoint POST (tool_call ''bedrock_chat'' (JObj []) (JInt 7)) env_hello st0
     = (Inr (Jsonify (success_envelope (JInt 7) (JStr ''hello''))),
        \<lparr>snowflake_conn = None, bedrock_client = Some 2,
         calls = [SnowflakeConnect, Boto3Client ''us-east-1'',
                  InvokeModel 2 ''anthropic.claude-3-sonnet-20240229-v1:0''
                    (dumps (request_body (JStr '''') (system_prompt ''''))) ''application/json'']\<rparr>)"
proof -
  have a: "is_tool_call [(''method'', JStr ''tools/call''),
             (''params'', JObj [(''name'', JStr ''bedrock_analyze''),
                (''arguments'', JObj [(''content'', JStr ''abc'')])]),
             (''id'', JInt 7)] ''bedrock_analyze'' [(''content'', JStr ''abc'')]"
    and c: "is_tool_call [(''method'', JStr ''tools/call''),
             (''params'', JObj [(''name'', JStr ''bedrock_chat''), (''arguments'', JObj [])]),
             (''id'', JInt 7)] ''bedrock_chat'' []"
    by (simp_all add: is_tool_call_def dict_get_def)
  show ?thesis
    using missing_arguments_defaults [OF a, of env_hello st0]
          missing_arguments_defaults [OF c, of env_hello st0]
    by (simp add: tool_call_def env_hello_forward dict_get_def py_str_def)
qed

text \<open>
  The claim as stated, that a missing \<^verbatim>\<open>task\<close> is read as the empty string, fails:
  the call without \<^verbatim>\<open>task\<close> does not submit the body that the empty task gives, and
  does not behave as the call with the task \<^verbatim>\<open>""\<close>.
\<close>

theorem missing_task_counterexample:
  "last (calls (snd (mcp_endpoint POST
           (tool_call ''bedrock_analyze'' (JObj [(''content'', JStr ''abc'')]) (JInt 7))
           env_hello st0)))
     \<noteq> InvokeModel 2 ''anthropic.claude-3-sonnet-20240229-v1:0''
         (dumps (request_body (JStr ('''' @ [newline, newline] @ ''Content:'' @ [newline] @ ''abc''))
                   (system_prompt ''''))) ''application/json''
   \<and> mcp_endpoint POST (tool_call ''bedrock_analyze'' (JObj [(''content'', JStr ''abc'')]) (JInt 7))
        env_hello st0
     \<noteq> mcp_endpoint POST
         (tool_call ''bedrock_analyze'' (JObj [(''content'', JStr ''abc''), (''task'', JStr '''')]) (JInt 7))
         env_hello st0"
proof -
  have a: "is_tool_call [(''method'', JStr ''tools/call''),
             (''params'', JObj [(''name'', JStr ''bedrock_analyze''),
                (''arguments'', JObj [(''content'', JStr ''abc'')])]),
             (''id'', JInt 7)] ''bedrock_analyze'' [(''content'', JStr ''abc'')]"
    and b: "is_tool_call [(''method'', JStr ''tools/call''),
             (''params'', JObj [(''name'', JStr ''bedrock_analyze''),
                (''arguments'', JObj [(''content'', JStr ''abc''), (''task'', JStr '''')])]),
             (''id'', JInt 7)] ''bedrock_analyze'' [(''content'', JStr ''abc''), (''task'', JStr '''')]"
    by (simp_all add: is_tool_call_def dict_get_def)
  have ma: "tool_message ''bedrock_analyze'' [(''content'', JStr ''abc'')]
              = Some (JStr (''Analyze this'' @ content_sep @ ''abc''))"
    and mb: "tool_message ''bedrock_analyze'' [(''content'', JStr ''abc''), (''task'', JStr '''')]
              = Some (JStr ('''' @ content_sep @ ''abc''))"
    by (simp_all add: tool_message_def dict_get_def py_str_def)
  have ne: "dumps (request_body (JStr (''Analyze this'' @ content_sep @ ''abc'')) sys)
          \<noteq> dumps (request_body (JStr ('''' @ content_sep @ ''abc'')) sys)" for sys
    by (simp add: request_body_def encode_basestring_ascii_def content_sep_def escape_char_def
          dquote_def bslash_def newline_def)
  have s: "'''' @ [newline, newline] @ ''Content:'' @ [newline] @ ''abc'' = '''' @ content_sep @ ''abc''"
    by (simp add: content_sep_def)
  show ?thesis
    unfolding tool_call_def mcp_endpoint_registered [OF a ma] mcp_endpoint_registered [OF b mb]
      env_hello_forward s
    using ne by simp
qed

section \<open>The inference client is not available\<close>

text \<open>
  C5, as the code has it. When the client slot is still unset after
  \<^verbatim>\<open>get_bedrock_client\<close> has tried to create the client, the inference adapter
  returns the string \<^verbatim>\<open>Bedrock client not available\<close>.
\<close>

theorem no_client_sentinel:
  assumes "bedrock_client (snd (get_bedrock_client env st)) = None"
  shows "fst (call_bedrock message sys env st) = JStr ''Bedrock client not available''"
proof -
  from assms have "fst (get_bedrock_client env st) = None"
    by (simp add: get_bedrock_client_slot)
  then show ?thesis
    by (simp add: call_bedrock_no_client)
qed

theorem no_client_sentinel_witness:
  "bedrock_client (snd (get_bedrock_client env_down st0)) = None
   \<and> fst (call_bedrock (JStr ''hello'') (system_prompt '''') env_down st0)
       = JStr ''Bedrock client not available''"
proof -
  have h: "bedrock_client (snd (get_bedrock_client env_down st0)) = None"
    by (simp add: get_bedrock_client_def env_down_def example_env_def st0_def)
  show ?thesis
    using h no_client_sentinel [OF h, of "JStr ''hello''" "system_prompt ''''"] by simp
qed

text \<open>
  The claim as stated fails: with the slot unset after the attempt, the string
  returned is not \<^verbatim>\<open>client not available\<close>.
\<close>

theorem client_not_available_counterexample:
  "bedrock_client (snd (get_bedrock_client env_down st0)) = None
   \<and> fst (call_bedrock (JStr ''hello'') (system_prompt '''') env_down st0)
       \<noteq> JStr ''client not available''"
  by (simp add: call_bedrock_def get_bedrock_client_def env_down_def example_env_def st0_def)

section \<open>The first text block of the response\<close>

text \<open>
  C6. The claim: a decoded response whose content array is empty gives the empty
  string. The code, on the response \<^verbatim>\<open>{"content": []}\<close>: the default \<^verbatim>\<open>[{}]\<close> is used
  only when the key \<^verbatim>\<open>content\<close> is absent, so \<^verbatim>\<open>[][0]\<close> raises \<^verbatim>\<open>IndexError\<close>, the
  handler of the adapter catches it, and the completion is the text
  \<^verbatim>\<open>Error: list index out of range\<close>, not the empty string. The response without the
  key \<^verbatim>\<open>content\<close> does give the empty string.
\<close>

theorem empty_content_array_yields_error_text:
  "first_text (JObj [(''content'', JArr [])]) = Inl (IndexError ''list index out of range'')
   \<and> fst (call_bedrock (JStr ''hello'') (system_prompt '''') env_empty_content st0)
       = JStr ''Error: list index out of range''
   \<and> fst (call_bedrock (JStr ''hello'') (system_prompt '''') env_empty_content st0) \<noteq> JStr ''''
   \<and> first_text (JObj []) = Inr (JStr '''')"
  by (simp add: call_bedrock_def get_bedrock_client_def bedrock_try_def first_text_def
        dict_get_def env_empty_content_def example_env_def st0_def Let_def)

section \<open>Failures of the context store\<close>

text \<open>
  C7. When the context store fails, because no connection is cached and the
  connection attempt raises, or because the query raises on the connection at
  hand, the context retrieval returns the empty string. A \<^verbatim>\<open>bedrock_chat\<close> call
  (the dispatcher retrieves three records) is then still answered with a success
  envelope, and the system prompt given to the inference adapter is the static
  prompt followed by the header of the context section and nothing after it.
\<close>

theorem context_store_failure_degrades:
  assumes failure:
      "(snowflake_conn st = None \<and> snowflake_connect env = Inl e)
       \<or> (fst (get_snowflake_connection env st) = Some conn \<and>
          hive_rows env conn (hive_query limit) = Inl e)"
    and call: "is_tool_call kvs ''bedrock_chat'' args"
  shows "fst (query_hive_mind limit env st) = ''''
       \<and> (limit = 3 \<longrightarrow>
           mcp_endpoint POST (JObj kvs) env st =
             (case call_bedrock (dict_get args ''message'' (JStr ''''))
                     (SOVEREIGN_MIND_PROMPT @ [newline, newline] @ ''Hive Mind Context:'' @ [newline])
                     env (snd (query_hive_mind 3 env st)) of
                (response, st2) \<Rightarrow>
                  (Inr (Jsonify (JObj [(''jsonrpc'', JStr ''2.0''),
                     (''id'', case map_of kvs ''id'' of None \<Rightarrow> JInt 1 | Some i \<Rightarrow> i),
                     (''result'', JObj [(''content'', JArr [JObj [(''type'', JStr ''text''),
                        (''text'', JStr (dumps (JObj [(''response'', response)])))]])])])),
                   st2)))"
proof (intro conjI impI)
  show q: "fst (query_hive_mind limit env st) = ''''"
    using failure by (rule query_hive_mind_failure)
  assume "limit = 3"
  with q have q3: "fst (query_hive_mind 3 env st) = ''''" by simp
  have t: "tool_message ''bedrock_chat'' args = Some (dict_get args ''message'' (JStr ''''))"
    by (simp add: tool_message_def)
  show "mcp_endpoint POST (JObj kvs) env st =
             (case call_bedrock (dict_get args ''message'' (JStr ''''))
                     (SOVEREIGN_MIND_PROMPT @ [newline, newline] @ ''Hive Mind Context:'' @ [newline])
                     env (snd (query_hive_mind 3 env st)) of
                (response, st2) \<Rightarrow>
                  (Inr (Jsonify (JObj [(''jsonrpc'', JStr ''2.0''),
                     (''id'', case map_of kvs ''id'' of None \<Rightarrow> JInt 1 | Some i \<Rightarrow> i),
                     (''result'', JObj [(''content'', JArr [JObj [(''type'', JStr ''text''),
                        (''text'', JStr (dumps (JObj [(''response'', response)])))]])])])),
                   st2))"
    using q3
    by (cases "query_hive_mind 3 env st")
       (simp add: mcp_endpoint_registered [OF call t] forward_def system_prompt_def
          success_envelope_def dict_get_def)
qed

theorem context_store_failure_degrades_witness:
  \<open>fst (query_hive_mind 3 env_raising st0) = ''''
   \<and> mcp_endpoint POST
         (JObj [(''method'', JStr ''tools/call''),
                (''params'', JObj [(''name'', JStr ''bedrock_chat''),
                                   (''arguments'', JObj [(''message'', JStr ''hello'')])]),
                (''id'', JInt 7)])
         env_raising st0
     = (Inr (Jsonify (JObj [(''jsonrpc'', JStr ''2.0''), (''id'', JInt 7),
              (''result'', JObj [(''content'', JArr [JObj [(''type'', JStr ''text''),
                 (''text'', JStr ''{"response": "Error: ThrottlingException"}'')]])])])),
        \<lparr>snowflake_conn = Some 3, bedrock_client = Some 2,
         calls = [SnowflakeConnect, HiveQuery 3 (hive_query 3), Boto3Client ''us-east-1'',
                  InvokeModel 2 ''anthropic.claude-3-sonnet-20240229-v1:0''
                    (dumps (request_body (JStr ''hello'')
                       (SOVEREIGN_MIND_PROMPT @ [newline, newline] @ ''Hive Mind Context:'' @ [newline])))
                    ''application/json'']\<rparr>)\<close>
proof -
  have f: "(snowflake_conn st0 = None \<and> snowflake_connect env_raising = Inl (Exception ''SQL compilation error''))
       \<or> (fst (get_snowflake_connection env_raising st0) = Some 3 \<and>
          hive_rows env_raising 3 (hive_query 3) = Inl (Exception ''SQL compilation error''))"
    by (simp add: get_snowflake_connection_def env_raising_def example_env_def st0_def)
  have c: "is_tool_call [(''method'', JStr ''tools/call''),
                    (''params'', JObj [(''name'', JStr ''bedrock_chat''),
                                       (''arguments'', JObj [(''message'', JStr ''hello'')])]),
                    (''id'', JInt 7)] ''bedrock_chat'' [(''message'', JStr ''hello'')]"
    by (simp add: is_tool_call_def dict_get_def)
  have q: "query_hive_mind 3 env_raising st0
             = ('''', \<lparr>snowflake_conn = Some 3, bedrock_client = None,
                       calls = [SnowflakeConnect, HiveQuery 3 (hive_query 3)]\<rparr>)"
    by (simp add: query_hive_mind_def get_snowflake_connection_def env_raising_def
          example_env_def st0_def Let_def)
  have b: "\<And>m sys. call_bedrock m sys env_raising
               \<lparr>snowflake_conn = Some 3, bedrock_client = None,
                calls = [SnowflakeConnect, HiveQuery 3 (hive_query 3)]\<rparr>
             = (JStr ''Error: ThrottlingException'',
                \<lparr>snowflake_conn = Some 3, bedrock_client = Some 2,
                 calls = [SnowflakeConnect, HiveQuery 3 (hive_query 3), Boto3Client ''us-east-1'',
                          InvokeModel 2 ''anthropic.claude-3-sonnet-20240229-v1:0''
                            (dumps (request_body m sys)) ''application/json'']\<rparr>)"
    by (simp add: call_bedrock_def get_bedrock_client_def bedrock_try_def env_raising_def
          example_env_def Let_def)
  show ?thesis
    using context_store_failure_degrades [OF f c]
    by (simp add: q b dict_get_def encode_basestring_ascii_def escape_char_def dquote_def
          bslash_def newline_def)
qed

section \<open>The message of the analysis tool\<close>

text \<open>
  C8. For a \<^verbatim>\<open>bedrock_analyze\<close> call whose arguments hold the strings \<open>t\<close> under
  \<^verbatim>\<open>task\<close> and \<open>c\<close> under \<^verbatim>\<open>content\<close>, the user message given to the inference adapter
  is \<open>t\<close>, then two newlines, \<^verbatim>\<open>Content:\<close> and a newline, then \<open>c\<close>. When a client
  is at hand, the last external call of the request is the inference call whose
  body is the serialized request with that message as its single user turn.
\<close>

theorem analyze_forwards_task_then_content:
  assumes call: "is_tool_call kvs ''bedrock_analyze'' args"
    and task: "map_of args ''task'' = Some (JStr t)"
    and content: "map_of args ''content'' = Some (JStr c)"
  shows "mcp_endpoint POST (JObj kvs) env st =
           (case query_hive_mind 3 env st of (hive, st1) \<Rightarrow>
              (case call_bedrock (JStr (t @ [newline, newline] @ ''Content:'' @ [newline] @ c))
                      (system_prompt hive) env st1 of
                 (response, st2) \<Rightarrow>
                   (Inr (Jsonify (success_envelope (dict_get kvs ''id'' (JInt 1)) response)), st2)))
       \<and> (\<forall>client. fst (get_bedrock_client env st) = Some client \<longrightarrow>
             last (calls (snd (mcp_endpoint POST (JObj kvs) env st)))
               = InvokeModel client (BEDROCK_MODEL env)
                   (dumps (request_body (JStr (t @ [newline, newline] @ ''Content:'' @ [newline] @ c))
                             (system_prompt (fst (query_hive_mind 3 env st)))))
                   ''application/json'')"
proof -
  have m: "tool_message ''bedrock_analyze'' args
             = Some (JStr (t @ [newline, newline] @ ''Content:'' @ [newline] @ c))"
    by (simp add: tool_message_def dict_get_Some [OF task] dict_get_Some [OF content]
          py_str_def content_sep_def)
  note e = mcp_endpoint_registered [OF call m]
  show ?thesis
    unfolding e
    by (auto simp: forward_records_invoke) (simp add: forward_def)
qed

theorem analyze_forwards_task_then_content_witness:
  \<open>mcp_endpoint POST
      (JObj [(''method'', JStr ''tools/call''),
             (''params'', JObj [(''name'', JStr ''bedrock_analyze''),
                (''arguments'', JObj [(''content'', JStr ''abc''), (''task'', JStr ''Summarize'')])]),
             (''id'', JInt 7)])
      env_hello st0
     = (Inr (Jsonify (success_envelope (JInt 7) (JStr ''hello''))),
        \<lparr>snowflake_conn = None, bedrock_client = Some 2,
         calls = [SnowflakeConnect, Boto3Client ''us-east-1'',
                  InvokeModel 2 ''anthropic.claude-3-sonnet-20240229-v1:0''
                    (dumps (request_body
                       (JStr (''Summarize'' @ [newline, newline] @ ''Content:'' @ [newline] @ ''abc''))
                       (system_prompt ''''))) ''application/json'']\<rparr>)
   \<and> last (calls (snd (mcp_endpoint POST
      (JObj [(''method'', JStr ''tools/call''),
             (''params'', JObj [(''name'', JStr ''bedrock_analyze''),
                (''arguments'', JObj [(''content'', JStr ''abc''), (''task'', JStr ''Summarize'')])]),
             (''id'', JInt 7)])
      env_hello st0)))
     = InvokeModel 2 ''anthropic.claude-3-sonnet-20240229-v1:0''
         (dumps (request_body
            (JStr (''Summarize'' @ [newline, newline] @ ''Content:'' @ [newline] @ ''abc''))
            (system_prompt ''''))) ''application/json''\<close>
proof -
  have c: "is_tool_call [(''method'', JStr ''tools/call''),
             (''params'', JObj [(''name'', JStr ''bedrock_analyze''),
                (''arguments'', JObj [(''content'', JStr ''abc''), (''task'', JStr ''Summarize'')])]),
             (''id'', JInt 7)] ''bedrock_analyze''
             [(''content'', JStr ''abc''), (''task'', JStr ''Summarize'')]"
    by (simp add: is_tool_call_def dict_get_def)
  have t: "map_of [(''content'', JStr ''abc''), (''task'', JStr ''Summarize'')] ''task''
             = Some (JStr ''Summarize'')"
    and k: "map_of [(''content'', JStr ''abc''), (''task'', JStr ''Summarize'')] ''content''
             = Some (JStr ''abc'')"
    by simp_all
  note w = analyze_forwards_task_then_content [OF c t k, of env_hello st0]
  show ?thesis
  proof (intro conjI)
    show "mcp_endpoint POST
      (JObj [(''method'', JStr ''tools/call''),
             (''params'', JObj [(''name'', JStr ''bedrock_analyze''),
                (''arguments'', JObj [(''content'', JStr ''abc''), (''task'', JStr ''Summarize'')])]),
             (''id'', JInt 7)])
      env_hello st0
     = (Inr (Jsonify (success_envelope (JInt 7) (JStr ''hello''))),
        \<lparr>snowflake_conn = None, bedrock_client = Some 2,
         calls = [SnowflakeConnect, Boto3Client ''us-east-1'',
                  InvokeModel 2 ''anthropic.claude-3-sonnet-20240229-v1:0''
                    (dumps (request_body
                       (JStr (''Summarize'' @ [newline, newline] @ ''Content:'' @ [newline] @ ''abc''))
                       (system_prompt ''''))) ''application/json'']\<rparr>)"
      unfolding conjunct1 [OF w]
      by (simp only: env_hello_query env_hello_call prod.case) (simp add: dict_get_def)
    show "last (calls (snd (mcp_endpoint POST
      (JObj [(''method'', JStr ''tools/call''),
             (''params'', JObj [(''name'', JStr ''bedrock_analyze''),
                (''arguments'', JObj [(''content'', JStr ''abc''), (''task'', JStr ''Summarize'')])]),
             (''id'', JInt 7)])
      env_hello st0)))
     = InvokeModel 2 ''anthropic.claude-3-sonnet-20240229-v1:0''
         (dumps (request_body
            (JStr (''Summarize'' @ [newline, newline] @ ''Content:'' @ [newline] @ ''abc''))
            (system_prompt ''''))) ''application/json''"
      using conjunct2 [OF w] env_hello_client
      by (simp add: env_hello_query) (simp add: env_hello_def example_env_def)
  qed
qed

section \<open>The payload of a success envelope\<close>



section \<open>Analysis as a chat on the composed message\<close>

text \<open>
  C10. For all strings \<open>c\<close> and \<open>t\<close>, every behaviour of the collaborators and every
  process state, the \<^verbatim>\<open>bedrock_analyze\<close> call with the arguments \<^verbatim>\<open>content\<close> \<open>c\<close> and
  \<^verbatim>\<open>task\<close> \<open>t\<close> and the \<^verbatim>\<open>bedrock_chat\<close> call with the same id whose message is \<open>t\<close>,
  two newlines, \<^verbatim>\<open>Content:\<close>, a newline and \<open>c\<close> have the same outcome: the same
  response envelope and the same process state after it, external calls included.
\<close>

theorem analyze_equals_chat_on_composed_message:
  "mcp_endpoint POST
     (tool_call ''bedrock_analyze'' (JObj [(''content'', JStr c), (''task'', JStr t)]) req_id) env st
   = mcp_endpoint POST
       (tool_call ''bedrock_chat''
          (JObj [(''message'', JStr (t @ [newline, newline] @ ''Content:'' @ [newline] @ c))]) req_id)
       env st"
proof -
  have a: "is_tool_call [(''method'', JStr ''tools/call''),
             (''params'', JObj [(''name'', JStr ''bedrock_analyze''),
                (''arguments'', JObj [(''content'', JStr c), (''task'', JStr t)])]),
             (''id'', req_id)] ''bedrock_analyze'' [(''content'', JStr c), (''task'', JStr t)]"
    and b: "is_tool_call [(''method'', JStr ''tools/call''),
             (''params'', JObj [(''name'', JStr ''bedrock_chat''),
                (''arguments'', JObj [(''message'',
                    JStr (t @ [newline, newline] @ ''Content:'' @ [newline] @ c))])]),
             (''id'', req_id)] ''bedrock_chat''
             [(''message'', JStr (t @ [newline, newline] @ ''Content:'' @ [newline] @ c))]"
    by (simp_all add: is_tool_call_def dict_get_def)
  have ma: "tool_message ''bedrock_analyze'' [(''content'', JStr c), (''task'', JStr t)]
              = Some (JStr (t @ [newline, newline] @ ''Content:'' @ [newline] @ c))"
    and mb: "tool_message ''bedrock_chat''
               [(''message'', JStr (t @ [newline, newline] @ ''Content:'' @ [newline] @ c))]
              = Some (JStr (t @ [newline, newline] @ ''Content:'' @ [newline] @ c))"
    by (simp_all add: tool_message_def dict_get_def py_str_def content_sep_def)
  show ?thesis
    unfolding tool_call_def mcp_endpoint_registered [OF a ma] mcp_endpoint_registered [OF b mb]
    by (simp add: dict_get_def)
qed

end
